theory Spec2Isabelle
  imports Complex_Main "HOL-Library.Multiset"
begin

section \<open>The evaluation workflow of the course notebooks\<close>

text \<open>
  The corpus is a set of notebooks whose code cells repeat one pattern: load a table,
  choose a resampling strategy, call \<^verbatim>\<open>cross_validate\<close> once per model, wrap the
  \<^verbatim>\<open>"test_score"\<close> entry of each result in a named \<^verbatim>\<open>pd.Series\<close> (negated when
  the scorer is a negated error) and put the series side by side with
  \<^verbatim>\<open>pd.concat(..., axis='columns')\<close>.  The definitions below follow those cells.
  Estimators, scorers, splitters and the random generators belong to the library the
  notebooks call; what the development needs of them is either a parameter or a
  definition marked as modelled.
\<close>

subsection \<open>Rows, splits, errors\<close>

type_synonym label = nat

text \<open>A split is the pair \<^verbatim>\<open>(train_index, test_index)\<close> that \<^verbatim>\<open>cv.split\<close> yields.\<close>

type_synonym split = "nat list \<times> nat list"

text \<open>A stream of raw draws of a random generator: the j-th draw is \<open>r j\<close>.\<close>

type_synonym rng = "nat \<Rightarrow> nat"

datatype error = IndexError | KeyError | ValueError

text \<open>
  Positional row selection, \<^verbatim>\<open>target.iloc[train_idx]\<close>: an index outside the table
  raises.
\<close>

definition iloc :: "'a list \<Rightarrow> nat list \<Rightarrow> error + 'a list" where
  "iloc xs idx =
     (if list_all (\<lambda>i. i < length xs) idx then Inr (map (\<lambda>i. xs ! i) idx)
      else Inl IndexError)"

text \<open>Running a list of computations stops at the first one that raises.\<close>

fun sequence :: "('e + 'a) list \<Rightarrow> 'e + 'a list" where
  "sequence [] = Inr []"
| "sequence (r # rs) =
     (case r of
        Inl e \<Rightarrow> Inl e
      | Inr v \<Rightarrow> (case sequence rs of Inl e \<Rightarrow> Inl e | Inr vs \<Rightarrow> Inr (v # vs)))"

subsection \<open>Estimators and the random state\<close>

text \<open>
  The \<^verbatim>\<open>random_state\<close> argument of an estimator: an integer seed, or \<^verbatim>\<open>None\<close>, the
  default the notebooks leave in place when they write
  \<^verbatim>\<open>DummyClassifier(strategy="stratified")\<close>.
\<close>

datatype random_state = RandomStateNone | RandomStateInt nat

text \<open>
  An estimator is what the notebooks hand to \<^verbatim>\<open>cross_validate\<close>: its
  \<^verbatim>\<open>random_state\<close> and the library's fit-then-predict, a function of the stream of
  draws it is given, the training rows and the rows to predict.
\<close>

record ('x, 'y) estimator =
  random_state :: random_state
  fit_predict :: "rng \<Rightarrow> ('x \<times> 'y) list \<Rightarrow> 'x list \<Rightarrow> 'y list"

text \<open>
  Modelled from the spec: the library's \<^verbatim>\<open>check_random_state\<close> is not part of the
  repository.  An integer seed starts the library's pseudo-random generator \<open>prng\<close>
  from that seed; \<^verbatim>\<open>None\<close> takes the generator of the running process, whose draws
  \<open>global\<close> are not fixed by any argument of the workflow.
\<close>

definition check_random_state :: "(nat \<Rightarrow> rng) \<Rightarrow> rng \<Rightarrow> random_state \<Rightarrow> rng" where
  "check_random_state prng global seed =
     (case seed of RandomStateNone \<Rightarrow> global | RandomStateInt s \<Rightarrow> prng s)"

subsection \<open>The dummy baselines\<close>

text \<open>
  Modelled from the spec: \<^verbatim>\<open>DummyClassifier\<close> and \<^verbatim>\<open>DummyRegressor\<close> are the
  library's.  The glossary has a baseline "always predict the mean or most frequent
  class"; the baseline notebook describes the other two strategies:
  \<^verbatim>\<open>"stratified"\<close> "will randomly generate predictions by respecting the training
  set's class distribution" and \<^verbatim>\<open>"uniform"\<close> "assigns class labels uniformly at
  random".  None of them looks at the features.
\<close>

datatype strategy = most_frequent | stratified | uniform

text \<open>The classes seen in training, in increasing order.\<close>

definition unique_classes :: "label list \<Rightarrow> label list" where
  "unique_classes y_train = sort (remdups y_train)"

text \<open>
  The most frequent class; among equally frequent ones the first in order.  There is
  always one: a dummy is only fitted on the rows of a non-empty fold.
\<close>

definition most_frequent_class :: "label list \<Rightarrow> label" where
  "most_frequent_class y_train =
     (case unique_classes y_train of
        [] \<Rightarrow> 0
      | c # cs \<Rightarrow>
          fold (\<lambda>c best. if count_list y_train best < count_list y_train c then c else best)
            cs c)"

text \<open>
  The predictions for \<open>n\<close> rows.  The j-th draw of the stream decides the j-th row:
  a uniform draw among the classes, or a uniform draw among the training rows, whose
  class is then drawn with its training frequency.
\<close>

fun dummy_predict :: "strategy \<Rightarrow> rng \<Rightarrow> label list \<Rightarrow> nat \<Rightarrow> label list" where
  "dummy_predict most_frequent r y_train n = replicate n (most_frequent_class y_train)"
| "dummy_predict stratified r y_train n =
     map (\<lambda>j. sort y_train ! (r j mod length y_train)) [0..<n]"
| "dummy_predict uniform r y_train n =
     map (\<lambda>j. unique_classes y_train ! (r j mod length (unique_classes y_train))) [0..<n]"

text \<open>\<^verbatim>\<open>DummyClassifier(strategy=..., random_state=...)\<close>.\<close>

definition DummyClassifier :: "strategy \<Rightarrow> random_state \<Rightarrow> ('x, label) estimator" where
  "DummyClassifier strat seed =
     \<lparr>random_state = seed,
      fit_predict = (\<lambda>r train X_test. dummy_predict strat r (map snd train) (length X_test))\<rparr>"

text \<open>
  \<^verbatim>\<open>DummyRegressor(strategy="mean")\<close>: "will always predict the mean target computed
  on the training target variable".  It takes no \<^verbatim>\<open>random_state\<close>.
\<close>

definition DummyRegressor_mean :: "('x, real) estimator" where
  "DummyRegressor_mean =
     \<lparr>random_state = RandomStateNone,
      fit_predict = (\<lambda>r train X_test.
         replicate (length X_test) (sum_list (map snd train) / real (length train)))\<rparr>"

subsection \<open>Scorers\<close>

text \<open>
  Modelled from the spec: the scorers are the library's.  \<^verbatim>\<open>accuracy\<close> is the share of
  test rows predicted right; \<^verbatim>\<open>"neg_mean_absolute_error"\<close> and
  \<^verbatim>\<open>"neg_mean_squared_error"\<close> are the mean absolute and the mean squared error with
  the sign turned, so that greater is better.  Scores are real numbers here, floating
  point rounding is not modelled; the score of an empty fold is never used (see
  \<open>fit_and_score\<close>).
\<close>

definition accuracy_score :: "'y list \<Rightarrow> 'y list \<Rightarrow> real" where
  "accuracy_score y_true y_pred =
     real (length (filter (\<lambda>(t, p). t = p) (zip y_true y_pred))) / real (length y_true)"

definition mean_absolute_error :: "real list \<Rightarrow> real list \<Rightarrow> real" where
  "mean_absolute_error y_true y_pred =
     sum_list (map (\<lambda>(t, p). \<bar>t - p\<bar>) (zip y_true y_pred)) / real (length y_true)"

definition mean_squared_error :: "real list \<Rightarrow> real list \<Rightarrow> real" where
  "mean_squared_error y_true y_pred =
     sum_list (map (\<lambda>(t, p). (t - p)\<^sup>2) (zip y_true y_pred)) / real (length y_true)"

definition neg_mean_absolute_error :: "real list \<Rightarrow> real list \<Rightarrow> real" where
  "neg_mean_absolute_error y_true y_pred = - mean_absolute_error y_true y_pred"

definition neg_mean_squared_error :: "real list \<Rightarrow> real list \<Rightarrow> real" where
  "neg_mean_squared_error y_true y_pred = - mean_squared_error y_true y_pred"

subsection \<open>cross_validate\<close>

text \<open>
  Modelled from the spec: \<^verbatim>\<open>cross_validate\<close> is the library's; it returns "for each
  model, a sequence of per-fold scores", one fit and one score per split.

  The two scores of one fold, once its rows are selected: fit on the training rows,
  score the predictions on the training rows and on the test rows.  Each of the two
  predictions resolves its stream of draws from the estimator's \<^verbatim>\<open>random_state\<close>;
  \<open>entropy c\<close> is what the process generator delivers to the c-th prediction of the
  fold (the test rows are predicted first).
\<close>

definition score_fold ::
  "(nat \<Rightarrow> rng) \<Rightarrow> (nat \<Rightarrow> rng) \<Rightarrow> ('x, 'y) estimator \<Rightarrow> ('y list \<Rightarrow> 'y list \<Rightarrow> real) \<Rightarrow>
     'x list \<Rightarrow> 'y list \<Rightarrow> 'x list \<Rightarrow> 'y list \<Rightarrow> real \<times> real" where
  "score_fold prng entropy est scoring X_train y_train X_test y_test =
     (let train = zip X_train y_train;
          rs = random_state est;
          test_pred = fit_predict est (check_random_state prng (entropy 0) rs) train X_test;
          train_pred = fit_predict est (check_random_state prng (entropy 1) rs) train X_train
      in (scoring y_train train_pred, scoring y_test test_pred))"

text \<open>
  One fold of \<^verbatim>\<open>cross_validate\<close>: select the rows of the split, then fit and
  score.  An index outside the table raises.  The library cannot fit on no rows and
  cannot score on no rows: with the default \<^verbatim>\<open>error_score=nan\<close>, which the notebooks
  leave in place, such a fold gets \<^verbatim>\<open>nan\<close> for the score it cannot compute (and a
  warning), and the call goes on.  \<^verbatim>\<open>nan\<close> is \<open>None\<close> here.
\<close>

definition fit_and_score ::
  "(nat \<Rightarrow> rng) \<Rightarrow> (nat \<Rightarrow> rng) \<Rightarrow> ('x, 'y) estimator \<Rightarrow> 'x list \<Rightarrow> 'y list \<Rightarrow>
     ('y list \<Rightarrow> 'y list \<Rightarrow> real) \<Rightarrow> split \<Rightarrow> error + (real option \<times> real option)" where
  "fit_and_score prng entropy est X y scoring s =
     (case (iloc X (fst s), iloc y (fst s), iloc X (snd s), iloc y (snd s)) of
        (Inr X_train, Inr y_train, Inr X_test, Inr y_test) \<Rightarrow>
          if X_train = [] then Inr (None, None)
          else
            (let scores = score_fold prng entropy est scoring X_train y_train X_test y_test
             in Inr (Some (fst scores), if X_test = [] then None else Some (snd scores)))
      | _ \<Rightarrow> Inl IndexError)"

text \<open>
  \<^verbatim>\<open>cross_validate(estimator, data, target, cv=cv, scoring=..., return_train_score=...)\<close>
  with \<open>cv\<close> the list of splits the resampling strategy yields for the table.  Tables
  of different lengths raise, and so does an empty list of splits, which leaves the
  library with no fold to read the scores of; when the fit failed on every fold (no
  train score is a number) the call raises instead of returning.  The result is the
  dictionary the notebooks index with \<^verbatim>\<open>"test_score"\<close> and \<^verbatim>\<open>"train_score"\<close>,
  the latter present only when asked for; the timing entries are left out, and so is
  \<^verbatim>\<open>n_jobs\<close>, which only spreads the folds over worker processes.
\<close>

definition cross_validate ::
  "(nat \<Rightarrow> rng) \<Rightarrow> (nat \<Rightarrow> nat \<Rightarrow> rng) \<Rightarrow> ('x, 'y) estimator \<Rightarrow> 'x list \<Rightarrow> 'y list \<Rightarrow>
     split list \<Rightarrow> ('y list \<Rightarrow> 'y list \<Rightarrow> real) \<Rightarrow> bool \<Rightarrow>
     error + (string \<rightharpoonup> real option list)" where
  "cross_validate prng entropy est X y cv scoring return_train_score =
     (if length X \<noteq> length y then Inl ValueError
      else if cv = [] then Inl IndexError
      else
        (case sequence
                (map (\<lambda>(i, s). fit_and_score prng (entropy i) est X y scoring s)
                   (enumerate 0 cv)) of
           Inl e \<Rightarrow> Inl e
         | Inr scores \<Rightarrow>
             if list_all (\<lambda>fold. fst fold = None) scores then Inl ValueError
             else
               Inr ((if return_train_score then [''train_score'' \<mapsto> map fst scores]
                     else Map.empty)
                    (''test_score'' \<mapsto> map snd scores))))"

text \<open>Dictionary lookup, \<^verbatim>\<open>cv_results["test_score"]\<close>: a missing key raises.\<close>

definition getitem :: "(string \<rightharpoonup> 'v) \<Rightarrow> string \<Rightarrow> error + 'v" where
  "getitem d k = (case d k of None \<Rightarrow> Inl KeyError | Some v \<Rightarrow> Inr v)"

subsection \<open>Series and the comparison table\<close>

text \<open>\<^verbatim>\<open>pd.Series(values, name=name)\<close>: a named column.\<close>

definition Series :: "real option list \<Rightarrow> string \<Rightarrow> string \<times> real option list" where
  "Series vals name = (name, vals)"

text \<open>
  \<^verbatim>\<open>pd.concat(series, axis='columns')\<close> on series indexed from 0: one column per
  series, as many rows as the longest has, \<^verbatim>\<open>nan\<close> where a series is shorter.  With
  no series at all it raises ("No objects to concatenate").
\<close>

definition concat_columns ::
  "(string \<times> real option list) list \<Rightarrow> error + (string \<times> real option list) list" where
  "concat_columns series =
     (if series = [] then Inl ValueError
      else
        (let n_rows = fold max (map (\<lambda>(name, vals). length vals) series) 0
         in Inr (map (\<lambda>(name, vals). (name, vals @ replicate (n_rows - length vals) None))
                  series)))"


subsection \<open>The workflow\<close>

text \<open>
  One model of the comparison, as the cells of the baseline notebook write it:
  \<^verbatim>\<open>cv_results = cross_validate(model, data, target, cv=cv, n_jobs=2)\<close> followed by
  \<^verbatim>\<open>pd.Series(cv_results["test_score"], name=...)\<close>.
\<close>

definition test_score_series ::
  "(nat \<Rightarrow> rng) \<Rightarrow> (nat \<Rightarrow> nat \<Rightarrow> rng) \<Rightarrow> 'x list \<Rightarrow> 'y list \<Rightarrow> split list \<Rightarrow>
     ('y list \<Rightarrow> 'y list \<Rightarrow> real) \<Rightarrow> string \<times> ('x, 'y) estimator \<Rightarrow>
     error + (string \<times> real option list)" where
  "test_score_series prng entropy X y cv scoring named_model =
     (case cross_validate prng entropy (snd named_model) X y cv scoring False of
        Inl e \<Rightarrow> Inl e
      | Inr cv_results \<Rightarrow>
          (case getitem cv_results ''test_score'' of
             Inl e \<Rightarrow> Inl e
           | Inr test_score \<Rightarrow> Inr (Series test_score (fst named_model))))"

text \<open>
  The whole comparison: the cells above once per named model, in order, then
  \<^verbatim>\<open>all_test_scores = pd.concat([...], axis='columns')\<close>.  \<open>entropy m\<close> is what the
  process generator delivers during the m-th call of \<^verbatim>\<open>cross_validate\<close>.
\<close>

definition evaluation_workflow ::
  "(nat \<Rightarrow> rng) \<Rightarrow> (nat \<Rightarrow> nat \<Rightarrow> nat \<Rightarrow> rng) \<Rightarrow> 'x list \<Rightarrow> 'y list \<Rightarrow> split list \<Rightarrow>
     ('y list \<Rightarrow> 'y list \<Rightarrow> real) \<Rightarrow> (string \<times> ('x, 'y) estimator) list \<Rightarrow>
     error + (string \<times> real option list) list" where
  "evaluation_workflow prng entropy X y cv scoring models =
     (case sequence
             (map (\<lambda>(m, named_model). test_score_series prng (entropy m) X y cv scoring named_model)
                (enumerate 0 models)) of
        Inl e \<Rightarrow> Inl e
      | Inr series \<Rightarrow> concat_columns series)"

text \<open>
  The models of the baseline notebook, as its cells construct them: the pipeline
  \<^verbatim>\<open>make_pipeline(StandardScaler(), LogisticRegression())\<close>, which is the library's
  and stays a parameter, and the three dummies, each without a \<^verbatim>\<open>random_state\<close>.
  The names are those of the series.
\<close>

definition baseline_models :: "('x, label) estimator \<Rightarrow> (string \<times> ('x, label) estimator) list" where
  "baseline_models classifier =
     [(''Logistic Regression'', classifier),
      (''Most frequent class predictor'', DummyClassifier most_frequent RandomStateNone),
      (''Stratified class predictor'', DummyClassifier stratified RandomStateNone),
      (''Uniform class predictor'', DummyClassifier uniform RandomStateNone)]"

text \<open>
  The splits a table of \<open>n\<close> rows can be evaluated on: every index is a row, and
  neither side of a split is empty.
\<close>

definition well_formed_split :: "nat \<Rightarrow> split \<Rightarrow> bool" where
  "well_formed_split n s =
     (fst s \<noteq> [] \<and> snd s \<noteq> [] \<and> list_all (\<lambda>i. i < n) (fst s) \<and> list_all (\<lambda>i. i < n) (snd s))"

definition well_formed_splits :: "nat \<Rightarrow> split list \<Rightarrow> bool" where
  "well_formed_splits n cv = list_all (well_formed_split n) cv"

text \<open>
  The error the regression notebooks report for each fold:
  \<^verbatim>\<open>test_error = -cv_results["test_score"]\<close> and
  \<^verbatim>\<open>train_error = -cv_results["train_score"]\<close>, also written
  \<^verbatim>\<open>pd.Series(-cv_results["test_score"], name=...)\<close>.  The negation of \<^verbatim>\<open>nan\<close>
  is \<^verbatim>\<open>nan\<close>.
\<close>

definition test_error :: "(string \<rightharpoonup> real option list) \<Rightarrow> error + real option list" where
  "test_error cv_results =
     (case getitem cv_results ''test_score'' of
        Inl e \<Rightarrow> Inl e
      | Inr test_score \<Rightarrow> Inr (map (map_option uminus) test_score))"

definition train_error :: "(string \<rightharpoonup> real option list) \<Rightarrow> error + real option list" where
  "train_error cv_results =
     (case getitem cv_results ''train_score'' of
        Inl e \<Rightarrow> Inl e
      | Inr train_score \<Rightarrow> Inr (map (map_option uminus) train_score))"

text \<open>
  An estimator whose predictions are fixed by the arguments of the workflow: it is
  seeded with an integer, or its predictions do not depend on the draws it is given.
\<close>

definition draws_fixed :: "('x, 'y) estimator \<Rightarrow> bool" where
  "draws_fixed est =
     (random_state est \<noteq> RandomStateNone \<or> (\<forall>r r'. fit_predict est r = fit_predict est r'))"

text \<open>The scores of a fold whose indices are rows of the table.\<close>

abbreviation (input) fold_scores where
  "fold_scores prng entropy est X y scoring s \<equiv>
     score_fold prng entropy est scoring
       (map (\<lambda>i. X ! i) (fst s)) (map (\<lambda>i. y ! i) (fst s))
       (map (\<lambda>i. X ! i) (snd s)) (map (\<lambda>i. y ! i) (snd s))"

section \<open>Resampling strategies\<close>

text \<open>
  Modelled from the spec: \<^verbatim>\<open>KFold\<close>, \<^verbatim>\<open>StratifiedKFold\<close> and \<^verbatim>\<open>ShuffleSplit\<close> are
  the library's ("a partition of row indices into train and test subsets, produced by
  an externally-implemented splitting strategy (fixed, shuffled, or stratified)").
  The stratification notebook describes the first: "KFold does not shuffle by default.
  It means that it will select the three first samples for the testing set at the
  first split, then the three next three samples for the second split, and the three
  next for the last split."  The definitions follow the library's documented
  procedure on the configurations it accepts; what it rejects before splitting is not
  modelled.  \<open>permutation seed i n\<close> stands for the i-th permutation of the rows
  \<open>0..<n\<close> that the library's generator draws when seeded with \<open>seed\<close>.
\<close>

datatype cv =
    KFold nat "nat option"
  | StratifiedKFold nat
  | ShuffleSplit nat rat nat

text \<open>
  \<^verbatim>\<open>KFold(n_splits, shuffle=..., random_state=...)\<close>, the second argument the seed when
  it shuffles; \<^verbatim>\<open>StratifiedKFold(n_splits)\<close>;
  \<^verbatim>\<open>ShuffleSplit(n_splits, test_size, random_state)\<close>.
\<close>

text \<open>The sizes of the folds: the first \<open>n_samples mod n_splits\<close> get one row more.\<close>

definition fold_sizes :: "nat \<Rightarrow> nat \<Rightarrow> nat list" where
  "fold_sizes n_splits n_samples =
     map (\<lambda>i. n_samples div n_splits + (if i < n_samples mod n_splits then 1 else 0))
       [0..<n_splits]"

text \<open>The test rows of the folds: consecutive blocks of the (possibly shuffled) rows.\<close>

fun iter_test_indices :: "nat list \<Rightarrow> nat list \<Rightarrow> nat list list" where
  "iter_test_indices indices [] = []"
| "iter_test_indices indices (fold_size # sizes) =
     take fold_size indices # iter_test_indices (drop fold_size indices) sizes"

text \<open>
  From test rows to splits: the test rows are marked in a mask over all rows, the
  training rows are the unmarked ones, both in increasing order.
\<close>

definition masks_to_splits :: "nat \<Rightarrow> nat list list \<Rightarrow> split list" where
  "masks_to_splits n_samples tests =
     map (\<lambda>test. (filter (\<lambda>i. i \<notin> set test) [0..<n_samples],
                   filter (\<lambda>i. i \<in> set test) [0..<n_samples])) tests"

text \<open>
  Stratified folds.  Classes are numbered in order of first appearance; the sorted
  class numbers are dealt round-robin to the folds, which fixes how many rows of each
  class a fold tests; the rows of a class, in table order, then fill the folds in
  order.
\<close>

definition y_encoded :: "label list \<Rightarrow> nat list" where
  "y_encoded y =
     (let classes = rev (remdups (rev y))
      in map (\<lambda>c. length (takeWhile (\<lambda>c'. c' \<noteq> c) classes)) y)"

definition allocation :: "nat \<Rightarrow> nat list \<Rightarrow> nat \<Rightarrow> nat \<Rightarrow> nat" where
  "allocation n_splits y_order i k =
     count_list
       (map (\<lambda>j. y_order ! j) (filter (\<lambda>j. j mod n_splits = i) [0..<length y_order])) k"

definition folds_for_class :: "nat \<Rightarrow> nat list \<Rightarrow> nat \<Rightarrow> nat list" where
  "folds_for_class n_splits y_order k =
     concat (map (\<lambda>i. replicate (allocation n_splits y_order i k) i) [0..<n_splits])"

definition make_test_folds :: "nat \<Rightarrow> label list \<Rightarrow> nat list" where
  "make_test_folds n_splits y =
     (let ye = y_encoded y; y_order = sort ye
      in map (\<lambda>p. folds_for_class n_splits y_order (ye ! p) ! count_list (take p ye) (ye ! p))
           [0..<length y])"

text \<open>\<^verbatim>\<open>cv.split(data, target)\<close>, as the list of its splits in order.\<close>

definition split :: "(nat \<Rightarrow> nat \<Rightarrow> nat \<Rightarrow> nat list) \<Rightarrow> cv \<Rightarrow> label list \<Rightarrow> split list" where
  "split permutation strategy y =
     (let n_samples = length y
      in case strategy of
           KFold n_splits shuffle \<Rightarrow>
             masks_to_splits n_samples
               (iter_test_indices
                  (case shuffle of None \<Rightarrow> [0..<n_samples]
                   | Some seed \<Rightarrow> permutation seed 0 n_samples)
                  (fold_sizes n_splits n_samples))
         | StratifiedKFold n_splits \<Rightarrow>
             masks_to_splits n_samples
               (map (\<lambda>f. filter (\<lambda>p. make_test_folds n_splits y ! p = f) [0..<n_samples])
                  [0..<n_splits])
         | ShuffleSplit n_splits test_size seed \<Rightarrow>
             map (\<lambda>i. let perm = permutation seed i n_samples;
                          n_test = nat \<lceil>test_size * of_nat n_samples\<rceil>;
                          n_train = n_samples - n_test
                      in (take n_train (drop n_test perm), take n_test perm))
               [0..<n_splits])"

text \<open>The configured number of splits, \<^verbatim>\<open>cv.get_n_splits()\<close>.\<close>

fun n_splits :: "cv \<Rightarrow> nat" where
  "n_splits (KFold k shuffle) = k"
| "n_splits (StratifiedKFold k) = k"
| "n_splits (ShuffleSplit k test_size seed) = k"


subsection \<open>Class counts per fold\<close>

text \<open>
  Modelled from the spec: the iris target of \<^verbatim>\<open>load_iris\<close> is not in the repository;
  it is "ordered", three classes of 50 rows each.
\<close>

definition iris_target :: "label list" where
  "iris_target = replicate 50 0 @ replicate 50 1 @ replicate 50 2"

text \<open>
  \<^verbatim>\<open>value_counts()\<close>: the classes present, each with its number of rows (listed here
  by class; the table the notebook builds from them is indexed by class).
\<close>

definition value_counts :: "label list \<Rightarrow> (label \<times> nat) list" where
  "value_counts ys = map (\<lambda>c. (c, count_list ys c)) (sort (remdups ys))"

text \<open>
  The loop of the stratification notebook:
  \<^verbatim>\<open>for fold_idx, (train_idx, test_idx) in enumerate(cv.split(data, target))\<close>
  appends \<^verbatim>\<open>target.iloc[train_idx].value_counts()\<close> to \<^verbatim>\<open>train_cv_counts\<close> and
  \<^verbatim>\<open>target.iloc[test_idx].value_counts()\<close> to \<^verbatim>\<open>test_cv_counts\<close>.
\<close>

fun cv_counts ::
  "label list \<Rightarrow> split list \<Rightarrow> error + ((label \<times> nat) list list \<times> (label \<times> nat) list list)" where
  "cv_counts target [] = Inr ([], [])"
| "cv_counts target ((train_idx, test_idx) # splits) =
     (case (iloc target train_idx, iloc target test_idx) of
        (Inr target_train, Inr target_test) \<Rightarrow>
          (case cv_counts target splits of
             Inl e \<Rightarrow> Inl e
           | Inr (train_cv_counts, test_cv_counts) \<Rightarrow>
               Inr (value_counts target_train # train_cv_counts,
                    value_counts target_test # test_cv_counts))
      | _ \<Rightarrow> Inl IndexError)"

section \<open>Properties\<close>

subsection \<open>Splits are partitions of the rows\<close>

lemma masks_to_splits_partition:
  assumes "(train, test) \<in> set (masks_to_splits n tests)"
  shows "set train \<inter> set test = {} \<and> set train \<union> set test = {0..<n}
       \<and> distinct train \<and> distinct test"
proof -
  from assms obtain t where "train = filter (\<lambda>i. i \<notin> set t) [0..<n]"
    and "test = filter (\<lambda>i. i \<in> set t) [0..<n]"
    by (auto simp: masks_to_splits_def)
  then show ?thesis by auto
qed

lemma shuffle_split_partition:
  assumes p: "mset p = mset [0..<n]"
  shows "set (take (n - n_test) (drop n_test p)) \<inter> set (take n_test p) = {}
       \<and> set (take (n - n_test) (drop n_test p)) \<union> set (take n_test p) = {0..<n}
       \<and> distinct (take (n - n_test) (drop n_test p)) \<and> distinct (take n_test p)"
proof -
  have d: "distinct p" using p by (metis distinct_upt mset_eq_imp_distinct_iff)
  have s: "set p = {0..<n}" using p by (metis mset_eq_setD set_upt)
  have l: "length p = n" using p by (metis length_upt minus_nat.diff_0 mset_eq_length)
  have tr: "take (n - n_test) (drop n_test p) = drop n_test p"
    using l by simp
  have "set (drop n_test p) \<inter> set (take n_test p) = {}"
    using d set_take_disj_set_drop_if_distinct[of p n_test n_test] by auto
  moreover have "set (drop n_test p) \<union> set (take n_test p) = set p"
    by (metis Un_commute append_take_drop_id set_append)
  ultimately show ?thesis using d s tr by simp
qed

text \<open>
  Claim C6.  In every split of \<^verbatim>\<open>KFold\<close> (shuffled or not), \<^verbatim>\<open>StratifiedKFold\<close> and
  \<^verbatim>\<open>ShuffleSplit\<close> (with a test size and no train size, as the notebooks configure
  it), the train and the test indices are disjoint, free of repetitions, and together
  they are exactly the rows of the table.  The generator is only assumed to draw
  permutations of the rows.
\<close>

theorem split_partition:
  assumes "\<forall>seed i. mset (permutation seed i (length y)) = mset [0..<length y]"
    and "(train, test) \<in> set (split permutation strategy y)"
  shows "set train \<inter> set test = {} \<and> set train \<union> set test = {0..<length y}
       \<and> distinct train \<and> distinct test"
proof (cases strategy)
  case (KFold n_splits shuffle)
  with assms(2) show ?thesis
    by (auto simp only: split_def Let_def cv.case dest!: masks_to_splits_partition)
next
  case (StratifiedKFold n_splits)
  with assms(2) show ?thesis
    by (auto simp only: split_def Let_def cv.case dest!: masks_to_splits_partition)
next
  case (ShuffleSplit n_splits test_size seed)
  with assms(2) obtain i where
    "train = take (length y - nat \<lceil>test_size * of_nat (length y)\<rceil>)
               (drop (nat \<lceil>test_size * of_nat (length y)\<rceil>) (permutation seed i (length y)))"
    "test = take (nat \<lceil>test_size * of_nat (length y)\<rceil>) (permutation seed i (length y))"
    by (auto simp: split_def Let_def)
  then show ?thesis
    using shuffle_split_partition[of "permutation seed i (length y)" "length y"] assms(1)
    by simp
qed

theorem split_partition_witness:
  "(\<forall>seed i. mset ((\<lambda>seed i n. rev [0..<n]) seed i (length [0, 1, 0, 1 :: label])) = mset [0..<length [0, 1, 0, 1 :: label]])
   \<and> ([1, 0], [3, 2]) \<in> set (split (\<lambda>seed i n. rev [0..<n]) (ShuffleSplit 10 (1 / 2) 0) [0, 1, 0, 1])
   \<and> set [1, 0 :: nat] \<inter> set [3, 2] = {}
   \<and> set [1, 0 :: nat] \<union> set [3, 2] = {0..<length [0, 1, 0, 1 :: label]}
   \<and> distinct [1, 0 :: nat] \<and> distinct [3, 2 :: nat]"
proof -
  have h1: "\<forall>seed i. mset ((\<lambda>seed i n. rev [0..<n]) seed i (length [0, 1, 0, 1 :: label])) = mset [0..<length [0, 1, 0, 1 :: label]]"
    by simp
  have h2: "([1, 0], [3, 2]) \<in> set (split (\<lambda>seed i n. rev [0..<n]) (ShuffleSplit 10 (1 / 2) 0) [0, 1, 0, 1])"
    by (simp add: split_def Let_def eval_nat_numeral image_iff)
  show ?thesis
    using h1 h2 split_partition[OF h1 h2] by blast
qed

subsection \<open>Unshuffled folds of a sorted target\<close>

lemma upt_three_blocks:
  assumes "a \<le> b" and "b \<le> n"
  shows "[0..<n] = [0..<a] @ [a..<b] @ [b..<n]"
proof -
  obtain d where b: "b = a + d" using assms(1) by (auto simp: le_iff_add)
  obtain e where n: "n = b + e" using assms(2) by (auto simp: le_iff_add)
  have 1: "[0..<b + e] = [0..<b] @ [b..<b + e]" by (rule upt_add_eq_append) simp
  have 2: "[0..<a + d] = [0..<a] @ [a..<a + d]" by (rule upt_add_eq_append) simp
  show ?thesis unfolding n 1 unfolding b 2 by simp
qed

lemma filter_not_in_block:
  assumes "a \<le> b" and "b \<le> n"
  shows "filter (\<lambda>i. i \<notin> set [a..<b]) [0..<n] = [0..<a] @ [b..<n]"
proof -
  have "filter (\<lambda>i. i \<notin> set [a..<b]) ([0..<a] @ [a..<b] @ [b..<n]) = [0..<a] @ [b..<n]"
    by (simp add: filter_id_conv filter_empty_conv)
  then show ?thesis using upt_three_blocks[OF assms] by simp
qed

lemma filter_in_block:
  assumes "a \<le> b" and "b \<le> n"
  shows "filter (\<lambda>i. i \<in> set [a..<b]) [0..<n] = [a..<b]"
proof -
  have "filter (\<lambda>i. i \<in> set [a..<b]) ([0..<a] @ [a..<b] @ [b..<n]) = [a..<b]"
    by (simp add: filter_id_conv filter_empty_conv)
  then show ?thesis using upt_three_blocks[OF assms] by simp
qed

lemma fold_sizes_iris: "fold_sizes 3 150 = [50, 50, 50]"
  by code_simp

lemma iter_test_indices_iris:
  "iter_test_indices [0..<150] [50, 50, 50] = [[0..<50], [50..<100], [100..<150]]"
  by (simp del: upt_rec_numeral)

lemma kfold_iris_split:
  "split permutation (KFold 3 None) iris_target =
     [([50..<150], [0..<50]), ([0..<50] @ [100..<150], [50..<100]), ([0..<100], [100..<150])]"
proof -
  have len: "length iris_target = 150" by (simp add: iris_target_def)
  have "masks_to_splits 150 [[0..<50], [50..<100], [100..<150]] =
     [([0..<0] @ [50..<150], [0..<50]), ([0..<50] @ [100..<150], [50..<100]),
      ([0..<100] @ [150..<150], [100..<150])]"
    unfolding masks_to_splits_def list.map
    by (simp only: filter_not_in_block filter_in_block)
  then show ?thesis
    by (simp add: split_def len fold_sizes_iris iter_test_indices_iris del: upt_rec_numeral)
qed

lemma map_nth_block:
  "b \<le> length xs \<Longrightarrow> map (\<lambda>i. xs ! i) [a..<b] = take (b - a) (drop a xs)"
  by (rule nth_equalityI) auto

lemma iris_rows:
  "map (\<lambda>i. iris_target ! i) [0..<50] = replicate 50 0"
  "map (\<lambda>i. iris_target ! i) [50..<100] = replicate 50 1"
  "map (\<lambda>i. iris_target ! i) [100..<150] = replicate 50 2"
  "map (\<lambda>i. iris_target ! i) [50..<150] = replicate 50 1 @ replicate 50 2"
  "map (\<lambda>i. iris_target ! i) [0..<100] = replicate 50 0 @ replicate 50 1"
  by (simp_all add: map_nth_block iris_target_def del: upt_rec_numeral)

lemma value_counts_iris:
  "value_counts (replicate 50 0) = [(0, 50)]"
  "value_counts (replicate 50 1) = [(1, 50)]"
  "value_counts (replicate 50 2) = [(2, 50)]"
  "value_counts (replicate 50 1 @ replicate 50 2) = [(1, 50), (2, 50)]"
  "value_counts (replicate 50 0 @ replicate 50 2) = [(0, 50), (2, 50)]"
  "value_counts (replicate 50 0 @ replicate 50 1) = [(0, 50), (1, 50)]"
  by code_simp+

lemma iris_in_range: "b \<le> 150 \<Longrightarrow> list_all (\<lambda>i. i < length iris_target) [a..<b]"
  by (auto simp: list_all_iff iris_target_def)

lemma iloc_iris_outer:
  "iloc iris_target ([0..<50] @ [100..<150]) = Inr (replicate 50 0 @ replicate 50 2)"
  unfolding iloc_def list_all_append map_append iris_rows
  using iris_in_range[of 50 0] iris_in_range[of 150 100] by simp

lemma iloc_iris:
  "iloc iris_target [0..<50] = Inr (replicate 50 0)"
  "iloc iris_target [50..<100] = Inr (replicate 50 1)"
  "iloc iris_target [100..<150] = Inr (replicate 50 2)"
  "iloc iris_target [50..<150] = Inr (replicate 50 1 @ replicate 50 2)"
  "iloc iris_target [0..<100] = Inr (replicate 50 0 @ replicate 50 1)"
  unfolding iloc_def iris_rows
  using iris_in_range[of 50 0] iris_in_range[of 100 50] iris_in_range[of 150 100]
    iris_in_range[of 150 50] iris_in_range[of 100 0]
  by simp_all

lemma cv_counts_iris:
  "cv_counts iris_target
         [([50..<150], [0..<50]), ([0..<50] @ [100..<150], [50..<100]), ([0..<100], [100..<150])]
     = Inr ([[(1, 50), (2, 50)], [(0, 50), (2, 50)], [(0, 50), (1, 50)]],
            [[(0, 50)], [(1, 50)], [(2, 50)]])"
  by (simp only: cv_counts.simps iloc_iris iloc_iris_outer value_counts_iris
      sum.case prod.case)

lemma classes_iris:
  "map (\<lambda>(train_idx, test_idx).
            (map (\<lambda>i. iris_target ! i) test_idx, remdups (map (\<lambda>i. iris_target ! i) train_idx)))
         [([50..<150], [0..<50]), ([0..<50] @ [100..<150], [50..<100]), ([0..<100], [100..<150])]
     = [(replicate 50 0, [1, 2]), (replicate 50 1, [0, 2]), (replicate 50 2, [0, 1])]"
proof -
  have "remdups (replicate 50 1 @ replicate 50 2) = [1, 2::nat]"
    "remdups (replicate 50 0 @ replicate 50 2) = [0, 2::nat]"
    "remdups (replicate 50 0 @ replicate 50 1) = [0, 1::nat]"
    by code_simp+
  then show ?thesis
    by (simp only: list.map prod.case map_append iris_rows)
qed

lemma value_counts_iris_target: "value_counts iris_target = [(0, 50), (1, 50), (2, 50)]"
  unfolding iris_target_def by code_simp

text \<open>
  Claim C10.  On the iris target, unshuffled \<^verbatim>\<open>KFold(n_splits=3)\<close> tests in fold f
  exactly the 50 rows of class f and trains on the other 100 rows, none of class f:
  the test labels of each fold are one class, the classes seen in training are the two
  others, and the class counts the notebook collects show 50 rows of one class in each
  test set and no row of that class in the training set, out of 50 rows per class in
  the whole target.
\<close>

theorem kfold_iris_single_class_folds:
  "split permutation (KFold 3 None) iris_target
     = [([50..<150], [0..<50]), ([0..<50] @ [100..<150], [50..<100]), ([0..<100], [100..<150])]
   \<and> map (\<lambda>(train_idx, test_idx).
            (map (\<lambda>i. iris_target ! i) test_idx, remdups (map (\<lambda>i. iris_target ! i) train_idx)))
         (split permutation (KFold 3 None) iris_target)
     = [(replicate 50 0, [1, 2]), (replicate 50 1, [0, 2]), (replicate 50 2, [0, 1])]
   \<and> cv_counts iris_target (split permutation (KFold 3 None) iris_target)
     = Inr ([[(1, 50), (2, 50)], [(0, 50), (2, 50)], [(0, 50), (1, 50)]],
            [[(0, 50)], [(1, 50)], [(2, 50)]])
   \<and> value_counts iris_target = [(0, 50), (1, 50), (2, 50)]"
  unfolding kfold_iris_split cv_counts_iris classes_iris value_counts_iris_target
  by (intro conjI refl)

subsection \<open>Splits of accepted configurations\<close>





















subsection \<open>The comparison table\<close>

text \<open>
  On well-formed splits no fold raises and no score is \<^verbatim>\<open>nan\<close>: every call of
  \<^verbatim>\<open>cross_validate\<close> returns one score per split, and the series have the same
  length, so that \<^verbatim>\<open>pd.concat\<close> pads nothing.
\<close>

lemma sequence_Inr_iff:
  "sequence rs = Inr vs \<longleftrightarrow> rs = map Inr vs"
proof (induction rs arbitrary: vs)
  case Nil
  then show ?case by auto
next
  case (Cons r rs)
  show ?case
  proof (cases r)
    case (Inl e)
    then show ?thesis by (cases vs) auto
  next
    case (Inr v)
    show ?thesis
    proof (cases "sequence rs")
      case (Inl e)
      with Cons.IH[of "tl vs"] Inr show ?thesis by (cases vs) auto
    next
      case (Inr ws)
      with Cons.IH \<open>r = Inr v\<close> show ?thesis by (cases vs) auto
    qed
  qed
qed

lemma sequence_map_Inr:
  assumes "\<And>x. x \<in> set xs \<Longrightarrow> f x = Inr (g x)"
  shows "sequence (map f xs) = Inr (map g xs)"
  using assms by (simp add: sequence_Inr_iff)

lemma iloc_in_range:
  "list_all (\<lambda>i. i < length xs) idx \<Longrightarrow> iloc xs idx = Inr (map (\<lambda>i. xs ! i) idx)"
  by (simp add: iloc_def)

lemma fit_and_score_well_formed:
  assumes "length X = length y" and "well_formed_split (length y) s"
  shows "fit_and_score prng entropy est X y scoring s
           = Inr (Some (fst (fold_scores prng entropy est X y scoring s)),
                  Some (snd (fold_scores prng entropy est X y scoring s)))"
  using assms by (simp add: fit_and_score_def well_formed_split_def iloc_in_range Let_def)

lemma in_set_enumerate_snd: "(i, s) \<in> set (enumerate n xs) \<Longrightarrow> s \<in> set xs"
  by (auto simp: in_set_enumerate_eq)

lemma cross_validate_well_formed:
  assumes "length X = length y" and "well_formed_splits (length y) cv" and "cv \<noteq> []"
  shows "cross_validate prng entropy est X y cv scoring rts =
           Inr ((if rts then [''train_score'' \<mapsto>
                    map (\<lambda>(i, s). Some (fst (fold_scores prng (entropy i) est X y scoring s))) (enumerate 0 cv)]
                 else Map.empty)
                (''test_score'' \<mapsto>
                    map (\<lambda>(i, s). Some (snd (fold_scores prng (entropy i) est X y scoring s))) (enumerate 0 cv)))"
proof -
  have "sequence (map (\<lambda>(i, s). fit_and_score prng (entropy i) est X y scoring s) (enumerate 0 cv))
      = Inr (map (\<lambda>(i, s). (Some (fst (fold_scores prng (entropy i) est X y scoring s)),
                             Some (snd (fold_scores prng (entropy i) est X y scoring s)))) (enumerate 0 cv))"
  proof (rule sequence_map_Inr)
    fix x assume x: "x \<in> set (enumerate 0 cv)"
    obtain i s where xis: "x = (i, s)" by (rule prod.exhaust)
    with x have "s \<in> set cv" by (auto dest: in_set_enumerate_snd)
    with assms(2) have "well_formed_split (length y) s"
      by (auto simp: well_formed_splits_def list_all_iff)
    then show "(case x of (i, s) \<Rightarrow> fit_and_score prng (entropy i) est X y scoring s)
        = Inr (case x of (i, s) \<Rightarrow> (Some (fst (fold_scores prng (entropy i) est X y scoring s)),
                             Some (snd (fold_scores prng (entropy i) est X y scoring s))))"
      using assms(1) xis by (simp add: fit_and_score_well_formed)
  qed
  moreover have "\<not> list_all (\<lambda>fold. fst fold = None)
      (map (\<lambda>(i, s). (Some (fst (fold_scores prng (entropy i) est X y scoring s)),
                        Some (snd (fold_scores prng (entropy i) est X y scoring s)))) (enumerate 0 cv))"
    using assms(3) by (cases cv) (simp_all add: case_prod_unfold)
  ultimately show ?thesis using assms(1,3)
    by (simp add: cross_validate_def comp_def case_prod_unfold)
qed


lemma fold_max_const:
  assumes "\<And>x. x \<in> set xs \<Longrightarrow> x = (k::nat)"
  shows "fold max xs 0 = (if xs = [] then 0 else k)"
  using assms
proof (induction xs rule: rev_induct)
  case Nil
  then show ?case by simp
next
  case (snoc x xs)
  then show ?case by (auto simp: max_def)
qed

lemma concat_columns_same_length:
  assumes "series \<noteq> []" and "\<And>c. c \<in> set series \<Longrightarrow> length (snd c) = k"
  shows "concat_columns series = Inr series"
proof -
  have "fold max (map (\<lambda>(name, vals). length vals) series) 0 = k"
    using assms by (subst fold_max_const[where k = k]) auto
  then have "map (\<lambda>(name, vals). (name, vals @ replicate (k - length vals) None)) series = series"
    using assms(2) by (intro map_idI) (auto simp: case_prod_unfold)
  with \<open>fold max _ 0 = k\<close> show ?thesis
    using assms(1) by (simp add: concat_columns_def Let_def)
qed






subsection \<open>Negated error scores\<close>

lemma mean_absolute_error_nonneg: "0 \<le> mean_absolute_error y_true y_pred"
  unfolding mean_absolute_error_def
  by (intro divide_nonneg_nonneg sum_list_nonneg) auto

lemma mean_squared_error_nonneg: "0 \<le> mean_squared_error y_true y_pred"
  unfolding mean_squared_error_def
  by (intro divide_nonneg_nonneg sum_list_nonneg) auto

lemma neg_scoring_nonpos:
  assumes "scoring = neg_mean_absolute_error \<or> scoring = neg_mean_squared_error"
  shows "scoring y_true y_pred \<le> 0"
  using assms mean_absolute_error_nonneg[of y_true y_pred] mean_squared_error_nonneg[of y_true y_pred]
  by (auto simp: neg_mean_absolute_error_def neg_mean_squared_error_def)

lemma score_fold_neg_scoring:
  assumes "scoring = neg_mean_absolute_error \<or> scoring = neg_mean_squared_error"
  shows "fst (score_fold prng entropy est scoring X_train y_train X_test y_test) \<le> 0"
    and "snd (score_fold prng entropy est scoring X_train y_train X_test y_test) \<le> 0"
  using neg_scoring_nonpos[OF assms] by (simp_all add: score_fold_def Let_def)

text \<open>
  Claim C9.  With \<^verbatim>\<open>scoring="neg_mean_absolute_error"\<close> or
  \<^verbatim>\<open>"neg_mean_squared_error"\<close>, whether or not the train scores are asked for, the
  per-fold errors the notebooks report are the negated test scores of
  \<^verbatim>\<open>cross_validate\<close>, one per fold, and none of them is negative.  When
  \<^verbatim>\<open>return_train_score=True\<close> the same holds of the train errors and the train scores;
  otherwise the result has no \<^verbatim>\<open>"train_score"\<close> entry.
\<close>

theorem reported_errors_nonneg:
  assumes "length X = length y" and "well_formed_splits (length y) cv" and "cv \<noteq> []"
    and "scoring = neg_mean_absolute_error \<or> scoring = neg_mean_squared_error"
  shows "\<exists>cv_results test_score.
           cross_validate prng entropy est X y cv scoring return_train_score = Inr cv_results
         \<and> getitem cv_results ''test_score'' = Inr (map Some test_score)
         \<and> length test_score = length cv
         \<and> test_error cv_results = Inr (map Some (map uminus test_score))
         \<and> list_all (\<lambda>e. 0 \<le> e) (map uminus test_score)
         \<and> (if return_train_score
            then \<exists>train_score.
                   getitem cv_results ''train_score'' = Inr (map Some train_score)
                 \<and> length train_score = length cv
                 \<and> train_error cv_results = Inr (map Some (map uminus train_score))
                 \<and> list_all (\<lambda>e. 0 \<le> e) (map uminus train_score)
            else getitem cv_results ''train_score'' = Inl KeyError)"
proof -
  let ?tr = "map (\<lambda>(i, s). fst (fold_scores prng (entropy i) est X y scoring s)) (enumerate 0 cv)"
  let ?te = "map (\<lambda>(i, s). snd (fold_scores prng (entropy i) est X y scoring s)) (enumerate 0 cv)"
  let ?res = "(if return_train_score then [''train_score'' \<mapsto> map Some ?tr] else Map.empty)
                (''test_score'' \<mapsto> map Some ?te)"
  have res: "cross_validate prng entropy est X y cv scoring return_train_score = Inr ?res"
    using cross_validate_well_formed[OF assms(1-3), of prng entropy est scoring return_train_score]
    by (simp add: comp_def case_prod_unfold)
  have te: "getitem ?res ''test_score'' = Inr (map Some ?te)"
    by (simp add: getitem_def)
  have nonneg: "list_all (\<lambda>e. 0 \<le> e) (map uminus ?te)" "list_all (\<lambda>e. 0 \<le> e) (map uminus ?tr)"
    using score_fold_neg_scoring[OF assms(4)] by (auto simp: list_all_iff)
  have terr: "test_error ?res = Inr (map Some (map uminus ?te))"
    unfolding test_error_def te by (simp add: comp_def)
  have lens: "length ?te = length cv" "length ?tr = length cv" by simp_all
  have train: "if return_train_score
            then \<exists>train_score.
                   getitem ?res ''train_score'' = Inr (map Some train_score)
                 \<and> length train_score = length cv
                 \<and> train_error ?res = Inr (map Some (map uminus train_score))
                 \<and> list_all (\<lambda>e. 0 \<le> e) (map uminus train_score)
            else getitem ?res ''train_score'' = Inl KeyError"
  proof (cases return_train_score)
    case True
    then have tr: "getitem ?res ''train_score'' = Inr (map Some ?tr)"
      by (simp add: getitem_def)
    have "train_error ?res = Inr (map Some (map uminus ?tr))"
      unfolding train_error_def tr by (simp add: comp_def)
    with tr lens(2) nonneg(2) True show ?thesis by (simp only: if_True) blast
  next
    case False
    then show ?thesis by (simp add: getitem_def)
  qed
  from res te lens(1) terr nonneg(1) train show ?thesis by blast
qed

theorem reported_errors_nonneg_witness:
  "length [5, 7, 6, 8 :: nat] = length [1, 2, 4, 9 :: real]
   \<and> well_formed_splits (length [1, 2, 4, 9 :: real]) [([0, 1], [2, 3]), ([2, 3], [0, 1])]
   \<and> [([0, 1], [2, 3]), ([2, 3], [0, 1 :: nat])] \<noteq> ([] :: split list)
   \<and> (neg_mean_absolute_error = neg_mean_absolute_error \<or> neg_mean_absolute_error = neg_mean_squared_error)
   \<and> (\<exists>cv_results test_score.
           cross_validate (\<lambda>s j. s + j) (\<lambda>i c j. j) DummyRegressor_mean [5, 7, 6, 8 :: nat] [1, 2, 4, 9]
              [([0, 1], [2, 3]), ([2, 3], [0, 1])] neg_mean_absolute_error False = Inr cv_results
         \<and> getitem cv_results ''test_score'' = Inr (map Some test_score)
         \<and> length test_score = 2
         \<and> test_error cv_results = Inr (map Some (map uminus test_score))
         \<and> list_all (\<lambda>e. 0 \<le> e) (map uminus test_score)
         \<and> getitem cv_results ''train_score'' = Inl KeyError)"
proof -
  have h1: "length [5, 7, 6, 8 :: nat] = length [1, 2, 4, 9 :: real]" by simp
  have h2: "well_formed_splits (length [1, 2, 4, 9 :: real]) [([0, 1], [2, 3]), ([2, 3], [0, 1])]"
    by (simp add: well_formed_splits_def well_formed_split_def)
  have h3: "[([0, 1], [2, 3]), ([2, 3], [0, 1 :: nat])] \<noteq> ([] :: split list)" by simp
  have h4: "neg_mean_absolute_error = neg_mean_absolute_error \<or> neg_mean_absolute_error = neg_mean_squared_error"
    by simp
  from reported_errors_nonneg[OF h1 h2 h3 h4, of "\<lambda>s j. s + j" "\<lambda>i c j. j" DummyRegressor_mean False]
  obtain cv_results test_score where
    "cross_validate (\<lambda>s j. s + j) (\<lambda>i c j. j) DummyRegressor_mean [5, 7, 6, 8 :: nat] [1, 2, 4, 9]
        [([0, 1], [2, 3]), ([2, 3], [0, 1])] neg_mean_absolute_error False = Inr cv_results"
    "getitem cv_results ''test_score'' = Inr (map Some test_score)"
    "length test_score = 2"
    "test_error cv_results = Inr (map Some (map uminus test_score))"
    "list_all (\<lambda>e. 0 \<le> e) (map uminus test_score)"
    "getitem cv_results ''train_score'' = Inl KeyError"
    by auto
  with h1 h2 h3 h4 show ?thesis by blast
qed

subsection \<open>Repeated runs\<close>

text \<open>
  Two runs of the workflow on the same tables, splits, scorer and models differ only
  in what the process generator delivers, \<open>entropy\<close> in one and \<open>entropy'\<close> in the
  other.
\<close>

lemma score_fold_draws_fixed:
  assumes "draws_fixed est"
  shows "score_fold prng entropy est scoring X_train y_train X_test y_test
       = score_fold prng entropy' est scoring X_train y_train X_test y_test"
proof (cases "random_state est")
  case RandomStateNone
  with assms have "\<And>r r'. fit_predict est r = fit_predict est r'"
    by (simp add: draws_fixed_def)
  then have "fit_predict est (check_random_state prng (entropy c) (random_state est))
           = fit_predict est (check_random_state prng (entropy' c) (random_state est))" for c
    by blast
  then show ?thesis by (simp add: score_fold_def Let_def)
next
  case (RandomStateInt s)
  then show ?thesis by (simp add: score_fold_def check_random_state_def)
qed

lemma fit_and_score_draws_fixed:
  assumes "draws_fixed est"
  shows "fit_and_score prng entropy est X y scoring s = fit_and_score prng entropy' est X y scoring s"
  by (simp add: fit_and_score_def score_fold_draws_fixed[OF assms, of prng entropy _ _ _ _ _ entropy']
      split: sum.splits prod.splits)

lemma cross_validate_draws_fixed:
  assumes "draws_fixed est"
  shows "cross_validate prng entropy est X y cv scoring rts
       = cross_validate prng entropy' est X y cv scoring rts"
proof -
  have folds: "map (\<lambda>(i, s). fit_and_score prng (entropy i) est X y scoring s) (enumerate 0 cv)
      = map (\<lambda>(i, s). fit_and_score prng (entropy' i) est X y scoring s) (enumerate 0 cv)"
    by (rule map_cong[OF refl]) (auto simp: fit_and_score_draws_fixed[OF assms, of prng "entropy _" _ _ _ _ "entropy' _"])
  show ?thesis unfolding cross_validate_def folds ..
qed

lemma test_score_series_draws_fixed:
  assumes "draws_fixed (snd nm)"
  shows "test_score_series prng entropy X y cv scoring nm
       = test_score_series prng entropy' X y cv scoring nm"
  unfolding test_score_series_def
  by (simp add: cross_validate_draws_fixed[OF assms, of prng entropy X y cv scoring False entropy'])

lemma length_test_score_series:
  assumes "test_score_series prng entropy X y cv scoring nm = Inr column"
  shows "length (snd column) = length cv"
proof -
  from assms obtain cv_results test_score
    where cvr: "cross_validate prng entropy (snd nm) X y cv scoring False = Inr cv_results"
      and ts: "getitem cv_results ''test_score'' = Inr test_score"
      and col: "column = Series test_score (fst nm)"
    by (auto simp: test_score_series_def split: sum.splits)
  from cvr obtain scores
    where seq: "sequence (map (\<lambda>(i, s). fit_and_score prng (entropy i) (snd nm) X y scoring s)
                  (enumerate 0 cv)) = Inr scores"
      and res: "cv_results = Map.empty(''test_score'' \<mapsto> map snd scores)"
    by (auto simp: cross_validate_def split: if_splits sum.splits)
  from seq have "map (\<lambda>(i, s). fit_and_score prng (entropy i) (snd nm) X y scoring s) (enumerate 0 cv)
      = map Inr scores"
    by (simp only: sequence_Inr_iff)
  then have "length (enumerate 0 cv) = length scores" by (rule map_eq_imp_length_eq)
  moreover from ts res have "test_score = map snd scores" by (simp add: getitem_def)
  ultimately show ?thesis using col by (simp add: Series_def)
qed

lemma evaluation_workflow_columns:
  assumes "evaluation_workflow prng entropy X y cv scoring models = Inr tbl"
    and "m < length models"
  shows "test_score_series prng (entropy m) X y cv scoring (models ! m) = Inr (tbl ! m)"
proof -
  let ?f = "\<lambda>(m, nm). test_score_series prng (entropy m) X y cv scoring nm"
  from assms(1) obtain series
    where seq: "sequence (map ?f (enumerate 0 models)) = Inr series"
      and cat: "concat_columns series = Inr tbl"
    by (auto simp: evaluation_workflow_def split: sum.splits)
  from seq have eq: "map ?f (enumerate 0 models) = map Inr series"
    by (simp only: sequence_Inr_iff)
  then have len: "length models = length series"
    using map_eq_imp_length_eq[OF eq] by simp
  have col: "test_score_series prng (entropy k) X y cv scoring (models ! k) = Inr (series ! k)"
    if "k < length models" for k
  proof -
    have "map ?f (enumerate 0 models) ! k = map Inr series ! k" by (simp only: eq)
    with that len show ?thesis by (simp add: nth_enumerate_eq)
  qed
  have "length (snd c) = length cv" if "c \<in> set series" for c
  proof -
    from that obtain k where "k < length series" "c = series ! k"
      by (auto simp: in_set_conv_nth)
    with col[of k] len show ?thesis by (auto dest: length_test_score_series)
  qed
  moreover from assms(2) len have "series \<noteq> []" by auto
  ultimately have "concat_columns series = Inr series"
    by (rule concat_columns_same_length[rotated])
  with cat have "tbl = series" by simp
  with col[OF assms(2)] show ?thesis by simp
qed

lemma draws_fixed_most_frequent: "draws_fixed (DummyClassifier most_frequent seed)"
  by (simp add: draws_fixed_def DummyClassifier_def)

lemma draws_fixed_seeded: "draws_fixed (DummyClassifier strat (RandomStateInt s))"
  by (simp add: draws_fixed_def DummyClassifier_def)

text \<open>
  Two runs of the baseline notebook's comparison on a table of four rows, with a
  stand-in for the fitted pipeline that predicts from the features alone.
\<close>

lemma baseline_run_constant_draws:
  "evaluation_workflow (\<lambda>s j. s + j) (\<lambda>m i c j. 0) [4, 7, 6, 9 :: nat] [0, 1, 0, 1 :: label]
       [([0, 1], [2, 3]), ([2, 3], [0, 1])] accuracy_score
       (baseline_models \<lparr>random_state = RandomStateNone,
                          fit_predict = (\<lambda>r train X_test. map (\<lambda>x. x mod 2) X_test)\<rparr>)
     = Inr [(''Logistic Regression'', [Some 1, Some 1]),
            (''Most frequent class predictor'', [Some (1 / 2), Some (1 / 2)]),
            (''Stratified class predictor'', [Some (1 / 2), Some (1 / 2)]),
            (''Uniform class predictor'', [Some (1 / 2), Some (1 / 2)])]"
  by (simp add: baseline_models_def evaluation_workflow_def test_score_series_def
      cross_validate_def fit_and_score_def iloc_def score_fold_def DummyClassifier_def
      check_random_state_def accuracy_score_def unique_classes_def most_frequent_class_def
      getitem_def Series_def concat_columns_def enumerate_eq_zip upt_rec)

lemma baseline_run_counting_draws:
  "evaluation_workflow (\<lambda>s j. s + j) (\<lambda>m i c j. j) [4, 7, 6, 9 :: nat] [0, 1, 0, 1 :: label]
       [([0, 1], [2, 3]), ([2, 3], [0, 1])] accuracy_score
       (baseline_models \<lparr>random_state = RandomStateNone,
                          fit_predict = (\<lambda>r train X_test. map (\<lambda>x. x mod 2) X_test)\<rparr>)
     = Inr [(''Logistic Regression'', [Some 1, Some 1]),
            (''Most frequent class predictor'', [Some (1 / 2), Some (1 / 2)]),
            (''Stratified class predictor'', [Some 1, Some 1]),
            (''Uniform class predictor'', [Some 1, Some 1])]"
  by (simp add: baseline_models_def evaluation_workflow_def test_score_series_def
      cross_validate_def fit_and_score_def iloc_def score_fold_def DummyClassifier_def
      check_random_state_def accuracy_score_def unique_classes_def most_frequent_class_def
      getitem_def Series_def concat_columns_def enumerate_eq_zip upt_rec)

text \<open>
  Claim C1, as amended.  When two runs of the workflow on the same tables, splits,
  scorer and models both return a table, the two tables agree in the column, the name
  and the per-fold test scores, of every model that is seeded with an integer or
  predicts independently of its draws.
\<close>

theorem fixed_columns_agree:
  assumes "evaluation_workflow prng entropy X y cv scoring models = Inr tbl"
    and "evaluation_workflow prng entropy' X y cv scoring models = Inr tbl'"
    and "m < length models" and "draws_fixed (snd (models ! m))"
  shows "tbl ! m = tbl' ! m"
proof -
  have "Inr (tbl ! m) = test_score_series prng (entropy m) X y cv scoring (models ! m)"
    using evaluation_workflow_columns[OF assms(1,3)] by simp
  also have "\<dots> = test_score_series prng (entropy' m) X y cv scoring (models ! m)"
    by (rule test_score_series_draws_fixed[OF assms(4)])
  also have "\<dots> = Inr (tbl' ! m)"
    by (rule evaluation_workflow_columns[OF assms(2,3)])
  finally show ?thesis by simp
qed

theorem fixed_columns_agree_witness:
  "evaluation_workflow (\<lambda>s j. s + j) (\<lambda>m i c j. 0) [4, 7, 6, 9 :: nat] [0, 1, 0, 1 :: label]
       [([0, 1], [2, 3]), ([2, 3], [0, 1])] accuracy_score
       (baseline_models \<lparr>random_state = RandomStateNone,
                          fit_predict = (\<lambda>r train X_test. map (\<lambda>x. x mod 2) X_test)\<rparr>)
     = Inr [(''Logistic Regression'', [Some 1, Some 1]),
            (''Most frequent class predictor'', [Some (1 / 2), Some (1 / 2)]),
            (''Stratified class predictor'', [Some (1 / 2), Some (1 / 2)]),
            (''Uniform class predictor'', [Some (1 / 2), Some (1 / 2)])]
   \<and> evaluation_workflow (\<lambda>s j. s + j) (\<lambda>m i c j. j) [4, 7, 6, 9 :: nat] [0, 1, 0, 1 :: label]
       [([0, 1], [2, 3]), ([2, 3], [0, 1])] accuracy_score
       (baseline_models \<lparr>random_state = RandomStateNone,
                          fit_predict = (\<lambda>r train X_test. map (\<lambda>x. x mod 2) X_test)\<rparr>)
     = Inr [(''Logistic Regression'', [Some 1, Some 1]),
            (''Most frequent class predictor'', [Some (1 / 2), Some (1 / 2)]),
            (''Stratified class predictor'', [Some 1, Some 1]),
            (''Uniform class predictor'', [Some 1, Some 1])]
   \<and> 1 < length (baseline_models \<lparr>random_state = RandomStateNone,
                          fit_predict = (\<lambda>r train X_test. map (\<lambda>x :: nat. x mod 2) X_test)\<rparr>)
   \<and> draws_fixed (snd (baseline_models \<lparr>random_state = RandomStateNone,
                          fit_predict = (\<lambda>r train X_test. map (\<lambda>x :: nat. x mod 2) X_test)\<rparr> ! 1))
   \<and> [(''Logistic Regression'', [Some 1, Some 1]),
       (''Most frequent class predictor'', [Some (1 / 2), Some (1 / 2 :: real)]),
       (''Stratified class predictor'', [Some (1 / 2), Some (1 / 2)]),
       (''Uniform class predictor'', [Some (1 / 2), Some (1 / 2)])] ! 1
     = [(''Logistic Regression'', [Some 1, Some 1]),
        (''Most frequent class predictor'', [Some (1 / 2), Some (1 / 2)]),
        (''Stratified class predictor'', [Some 1, Some 1]),
        (''Uniform class predictor'', [Some 1, Some 1])] ! 1"
proof -
  let ?clf = "\<lparr>random_state = RandomStateNone,
               fit_predict = (\<lambda>r train X_test. map (\<lambda>x. x mod 2) X_test)\<rparr> :: (nat, label) estimator"
  have n: "1 < length (baseline_models ?clf)"
    by (simp add: baseline_models_def)
  have d: "draws_fixed (snd (baseline_models ?clf ! 1))"
    by (simp add: baseline_models_def draws_fixed_most_frequent)
  from fixed_columns_agree[OF baseline_run_constant_draws baseline_run_counting_draws n d]
    baseline_run_constant_draws baseline_run_counting_draws n d
  show ?thesis by blast
qed

text \<open>
  Claim C1, as stated, fails for the baselines of the notebook: the stratified and the
  uniform dummy are built with \<^verbatim>\<open>random_state=None\<close>, and two runs that differ only
  in the draws of the process generator score them differently on the same splits.
\<close>

theorem unseeded_dummy_runs_differ:
  "evaluation_workflow (\<lambda>s j. s + j) (\<lambda>m i c j. 0) [4, 7, 6, 9 :: nat] [0, 1, 0, 1 :: label]
       [([0, 1], [2, 3]), ([2, 3], [0, 1])] accuracy_score
       (baseline_models \<lparr>random_state = RandomStateNone,
                          fit_predict = (\<lambda>r train X_test. map (\<lambda>x. x mod 2) X_test)\<rparr>)
     = Inr [(''Logistic Regression'', [Some 1, Some 1]),
            (''Most frequent class predictor'', [Some (1 / 2), Some (1 / 2)]),
            (''Stratified class predictor'', [Some (1 / 2), Some (1 / 2)]),
            (''Uniform class predictor'', [Some (1 / 2), Some (1 / 2)])]
   \<and> evaluation_workflow (\<lambda>s j. s + j) (\<lambda>m i c j. j) [4, 7, 6, 9 :: nat] [0, 1, 0, 1 :: label]
       [([0, 1], [2, 3]), ([2, 3], [0, 1])] accuracy_score
       (baseline_models \<lparr>random_state = RandomStateNone,
                          fit_predict = (\<lambda>r train X_test. map (\<lambda>x. x mod 2) X_test)\<rparr>)
     = Inr [(''Logistic Regression'', [Some 1, Some 1]),
            (''Most frequent class predictor'', [Some (1 / 2), Some (1 / 2)]),
            (''Stratified class predictor'', [Some 1, Some 1]),
            (''Uniform class predictor'', [Some 1, Some 1])]
   \<and> evaluation_workflow (\<lambda>s j. s + j) (\<lambda>m i c j. 0) [4, 7, 6, 9 :: nat] [0, 1, 0, 1 :: label]
       [([0, 1], [2, 3]), ([2, 3], [0, 1])] accuracy_score
       (baseline_models \<lparr>random_state = RandomStateNone,
                          fit_predict = (\<lambda>r train X_test. map (\<lambda>x. x mod 2) X_test)\<rparr>)
     \<noteq> evaluation_workflow (\<lambda>s j. s + j) (\<lambda>m i c j. j) [4, 7, 6, 9 :: nat] [0, 1, 0, 1 :: label]
       [([0, 1], [2, 3]), ([2, 3], [0, 1])] accuracy_score
       (baseline_models \<lparr>random_state = RandomStateNone,
                          fit_predict = (\<lambda>r train X_test. map (\<lambda>x. x mod 2) X_test)\<rparr>)"
  unfolding baseline_run_constant_draws baseline_run_counting_draws by simp

end
